theory Spec2Isabelle
  imports Complex_Main "HOL-Library.Word" "HOL-Library.Sublist"
begin

section \<open>JavaScript values used by the program\<close>

text \<open>
  The program is TypeScript running in a browser. Four kinds of run-time failure occur
  in the code under study: the explicit \<^verbatim>\<open>throw new Error(msg)\<close>, the
  \<^verbatim>\<open>RangeError\<close> of a typed-array constructor given a length it cannot allocate,
  the \<^verbatim>\<open>TypeError\<close> of reading a property of \<^verbatim>\<open>undefined\<close>, and the
  \<^verbatim>\<open>QuotaExceededError\<close> of \<^verbatim>\<open>crypto.getRandomValues\<close> given an array of more
  than 65536 bytes.
\<close>

datatype js_error = Error string | RangeError | TypeError | QuotaExceededError

text \<open>
  A JavaScript \<^verbatim>\<open>number\<close> is modelled as a real (the rounding of IEEE doubles is not
  modelled), but the three non-finite results a division can give are kept: \<^verbatim>\<open>0/0\<close>
  is \<^verbatim>\<open>NaN\<close>, and a non-zero number over zero is an infinity. HOL's own \<open>x / 0 = 0\<close>
  is never used for a division of the source.
\<close>

datatype number = Fin real | PosInfinity | NegInfinity | NaN

text \<open>The operator \<^verbatim>\<open>a / b\<close> on two finite numbers.\<close>

definition js_div :: "real \<Rightarrow> real \<Rightarrow> number" where
  "js_div a b =
     (if b = 0 then (if a = 0 then NaN else if 0 < a then PosInfinity else NegInfinity)
      else Fin (a / b))"

text \<open>The operator \<^verbatim>\<open>x * r\<close> where \<open>x\<close> may be non-finite and \<open>r\<close> is finite.\<close>

fun js_times :: "number \<Rightarrow> real \<Rightarrow> number" where
  "js_times (Fin x) r = Fin (x * r)"
| "js_times NaN r = NaN"
| "js_times PosInfinity r = (if r = 0 then NaN else if 0 < r then PosInfinity else NegInfinity)"
| "js_times NegInfinity r = (if r = 0 then NaN else if 0 < r then NegInfinity else PosInfinity)"

text \<open>\<^verbatim>\<open>Math.min(x, r)\<close>: \<^verbatim>\<open>NaN\<close> if an argument is \<^verbatim>\<open>NaN\<close>.\<close>

fun Math_min :: "number \<Rightarrow> real \<Rightarrow> number" where
  "Math_min (Fin x) r = Fin (min x r)"
| "Math_min NaN r = NaN"
| "Math_min PosInfinity r = Fin r"
| "Math_min NegInfinity r = NegInfinity"

text \<open>The comparison \<^verbatim>\<open>x < r\<close>: false whenever \<open>x\<close> is \<^verbatim>\<open>NaN\<close>.\<close>

fun js_less :: "number \<Rightarrow> real \<Rightarrow> bool" where
  "js_less (Fin x) r = (x < r)"
| "js_less NaN r = False"
| "js_less PosInfinity r = False"
| "js_less NegInfinity r = True"

section \<open>The brute-force simulator (BruteForceSimulator.tsx)\<close>

subsection \<open>Data\<close>

datatype MethodId = sequential | dictionary | hybrid

datatype HardwareKey =
  cpu_basic | cpu_multi | gpu_gaming | gpu_mining | cluster_small | cluster_large

text \<open>
  The records keep the fields that take part in a computation; the display fields
  (\<^verbatim>\<open>name\<close>, \<^verbatim>\<open>icon\<close>, \<^verbatim>\<open>description\<close>, \<^verbatim>\<open>specs\<close>) are left out. Where two
  interfaces of the source share a field name, or a name is taken in Isabelle, the field
  carries a suffix (\<open>method_id\<close> is \<^verbatim>\<open>simulation.method\<close>).
\<close>

record HardwareProfile =
  baseSpeed_hw :: real
  powerCost :: real

record AttackMethod =
  id_am :: MethodId
  baseSpeed :: real
  successRate :: real
  complexityMultiplier :: real

record BruteForceSimulation =
  method_id :: MethodId
  isRunning :: bool
  progress :: number
  hardware :: HardwareKey

record SimulationStats =
  attempts :: real
  timeElapsed :: real
  remainingCombinations :: real
  successRate_st :: real
  estimatedTimeToComplete :: number
  energyCost :: real
  passwordsPerWatt :: number

record PasswordSettings =
  length_pw :: nat
  charset :: nat

record GraphPoint =
  time :: real
  attempts_gp :: real
  energyUsage :: real
  efficiency :: number
  progress_gp :: number

text \<open>The four \<^verbatim>\<open>useState\<close> cells of the component.\<close>

record SimulatorState =
  simulation :: BruteForceSimulation
  stats :: SimulationStats
  password :: PasswordSettings
  graphData :: "GraphPoint list"

subsection \<open>Constant tables\<close>

fun HARDWARE_PROFILES :: "HardwareKey \<Rightarrow> HardwareProfile" where
  "HARDWARE_PROFILES cpu_basic = \<lparr>baseSpeed_hw = 500000, powerCost = 65 / 1000\<rparr>"
| "HARDWARE_PROFILES cpu_multi = \<lparr>baseSpeed_hw = 2000000, powerCost = 125 / 1000\<rparr>"
| "HARDWARE_PROFILES gpu_gaming = \<lparr>baseSpeed_hw = 100000000, powerCost = 25 / 100\<rparr>"
| "HARDWARE_PROFILES gpu_mining = \<lparr>baseSpeed_hw = 500000000, powerCost = 3 / 10\<rparr>"
| "HARDWARE_PROFILES cluster_small = \<lparr>baseSpeed_hw = 2000000000, powerCost = 8 / 10\<rparr>"
| "HARDWARE_PROFILES cluster_large = \<lparr>baseSpeed_hw = 10000000000, powerCost = 25 / 10\<rparr>"

definition ATTACK_METHODS :: "AttackMethod list" where
  "ATTACK_METHODS =
     [\<lparr>id_am = sequential, baseSpeed = 1, successRate = 1, complexityMultiplier = 1\<rparr>,
      \<lparr>id_am = dictionary, baseSpeed = 100, successRate = 15 / 100,
         complexityMultiplier = 1 / 10\<rparr>,
      \<lparr>id_am = hybrid, baseSpeed = 10, successRate = 45 / 100,
         complexityMultiplier = 5 / 10\<rparr>]"

subsection \<open>Pure helpers\<close>

text \<open>\<^verbatim>\<open>Math.ceil(Math.pow(charset, length) * method.complexityMultiplier)\<close>\<close>

definition calculatePasswordSpace :: "nat \<Rightarrow> nat \<Rightarrow> AttackMethod \<Rightarrow> real" where
  "calculatePasswordSpace len cs m =
     (let baseSpace = real cs ^ len
      in of_int \<lceil>baseSpace * complexityMultiplier m\<rceil>)"

text \<open>
  \<^verbatim>\<open>Math.log2(0)\<close> is \<^verbatim>\<open>-Infinity\<close>, so \<^verbatim>\<open>Math.max(1, Math.log2(0))\<close> is 1; for a
  positive length the logarithm is finite. The first parameter is never read.
\<close>

definition calculateHashingSpeed :: "real \<Rightarrow> HardwareKey \<Rightarrow> nat \<Rightarrow> real" where
  "calculateHashingSpeed baseSpeed_arg hw passwordLength =
     (let lengthPenalty =
            (if passwordLength = 0 then 1 else max 1 (log 2 (real passwordLength)))
      in of_int \<lfloor>baseSpeed_hw (HARDWARE_PROFILES hw) / lengthPenalty\<rfloor>)"

definition calculateEnergyCost :: "real \<Rightarrow> HardwareKey \<Rightarrow> real" where
  "calculateEnergyCost timeInHours hw = timeInHours * powerCost (HARDWARE_PROFILES hw)"

subsection \<open>The animation frame\<close>

text \<open>
  \<^verbatim>\<open>setGraphData((prev) => ...)\<close>: the new point is appended and, when the array has
  grown beyond 30 entries, \<^verbatim>\<open>slice(-30)\<close> keeps its last 30.
\<close>

definition setGraphData_append :: "GraphPoint list \<Rightarrow> GraphPoint \<Rightarrow> GraphPoint list" where
  "setGraphData_append prev pt =
     (let newData = prev @ [pt]
      in if length newData > 30 then drop (length newData - 30) newData else newData)"

text \<open>
  One call of the closure \<^verbatim>\<open>animate\<close>. The values \<open>attackMethod\<close>, \<open>totalSpace\<close>
  and \<open>hashingSpeed\<close> are the ones the effect computed when it started; \<open>elapsed\<close> is
  \<^verbatim>\<open>(Date.now() - startTime) / 1000\<close>, read from the clock by the caller.
\<close>

definition animate ::
  "AttackMethod \<Rightarrow> real \<Rightarrow> real \<Rightarrow> real \<Rightarrow> SimulatorState \<Rightarrow> SimulatorState" where
  "animate attackMethod totalSpace hashingSpeed elapsed s =
     (let elapsedHours = elapsed / 3600;
          baseAttempts = of_int \<lfloor>elapsed * hashingSpeed * baseSpeed attackMethod\<rfloor>;
          attempts' = min baseAttempts totalSpace;
          progress' = js_times (js_div attempts' totalSpace) 100;
          energyCost' = calculateEnergyCost elapsedHours (hardware (simulation s));
          passwordsPerWatt' = js_div attempts' (energyCost' * 1000);
          graphData' = setGraphData_append (graphData s)
             \<lparr>time = elapsed, attempts_gp = hashingSpeed, energyUsage = energyCost',
              efficiency = passwordsPerWatt', progress_gp = progress'\<rparr>;
          stats' = \<lparr>attempts = attempts', timeElapsed = elapsed,
             remainingCombinations = totalSpace - attempts',
             successRate_st = successRate attackMethod,
             estimatedTimeToComplete = js_div totalSpace (hashingSpeed * baseSpeed attackMethod),
             energyCost = energyCost', passwordsPerWatt = passwordsPerWatt'\<rparr>;
          simulation' = (simulation s)\<lparr>progress := Math_min progress' 100\<rparr>;
          simulation'' = (if js_less progress' 100 then simulation'
                          else simulation'\<lparr>isRunning := False\<rparr>)
      in s\<lparr>simulation := simulation'', stats := stats', graphData := graphData'\<rparr>)"

text \<open>
  The body of the effect followed by one frame. Nothing is scheduled while
  \<^verbatim>\<open>simulation.isRunning\<close> is false. The lookup
  \<^verbatim>\<open>ATTACK_METHODS.find((m) => m.id === simulation.method)!\<close> would give
  \<^verbatim>\<open>undefined\<close> for an id that is not in the table, and the next property read
  would throw.
\<close>

definition frame :: "real \<Rightarrow> SimulatorState \<Rightarrow> js_error + SimulatorState" where
  "frame elapsed s =
     (if isRunning (simulation s) then
        (case find (\<lambda>m. id_am m = method_id (simulation s)) ATTACK_METHODS of
           None \<Rightarrow> Inl TypeError
         | Some attackMethod \<Rightarrow>
             (let totalSpace = calculatePasswordSpace (length_pw (password s))
                                 (charset (password s)) attackMethod;
                  hashingSpeed = calculateHashingSpeed
                                   (baseSpeed_hw (HARDWARE_PROFILES (hardware (simulation s))))
                                   (hardware (simulation s)) (length_pw (password s))
              in Inr (animate attackMethod totalSpace hashingSpeed elapsed s)))
      else Inr s)"

subsection \<open>The buttons\<close>

definition handleStart :: "SimulatorState \<Rightarrow> SimulatorState" where
  "handleStart s = s\<lparr>simulation := (simulation s)\<lparr>isRunning := True\<rparr>\<rparr>"

definition handlePause :: "SimulatorState \<Rightarrow> SimulatorState" where
  "handlePause s = s\<lparr>simulation := (simulation s)\<lparr>isRunning := False\<rparr>\<rparr>"

definition handleReset :: "SimulatorState \<Rightarrow> SimulatorState" where
  "handleReset s =
     s\<lparr>simulation := (simulation s)\<lparr>isRunning := False, progress := Fin 0\<rparr>,
       stats := \<lparr>attempts = 0, timeElapsed = 0,
                 remainingCombinations =
                   calculatePasswordSpace (length_pw (password s)) (charset (password s))
                     (hd ATTACK_METHODS),
                 successRate_st = 0, estimatedTimeToComplete = Fin 0,
                 energyCost = 0, passwordsPerWatt = Fin 0\<rparr>,
       graphData := []\<rparr>"

text \<open>The state the component starts in.\<close>

definition initial_state :: SimulatorState where
  "initial_state =
     \<lparr>simulation = \<lparr>method_id = sequential, isRunning = False, progress = Fin 0,
                     hardware = cpu_basic\<rparr>,
      stats = \<lparr>attempts = 0, timeElapsed = 0, remainingCombinations = 1000000,
                successRate_st = 0, estimatedTimeToComplete = Fin 0,
                energyCost = 0, passwordsPerWatt = Fin 0\<rparr>,
      password = \<lparr>length_pw = 8, charset = 26\<rparr>,
      graphData = []\<rparr>"

section \<open>The generators (passwordGenerator.ts, cryptoUtils.ts, types)\<close>

subsection \<open>Data\<close>

datatype Language = en | es

text \<open>
  The interface \<^verbatim>\<open>PasswordOptions\<close>. The two counts are JavaScript numbers that the
  sliders set with \<^verbatim>\<open>parseInt\<close>; they are integers here, negative ones included.
\<close>

record PasswordOptions =
  length_opt :: int
  includeLowercase :: bool
  includeUppercase :: bool
  includeNumbers :: bool
  includeSymbols :: bool
  excludeAmbiguous :: bool
  wordCount :: int
  wordSeparator :: string
  wordLanguage :: Language

text \<open>
  The module \<^verbatim>\<open>constants/characterSets\<close> is imported by the generator; its five
  string constants are a parameter of the model.
\<close>

record CharacterSets =
  LOWERCASE_CHARS :: string
  UPPERCASE_CHARS :: string
  NUMBER_CHARS :: string
  SYMBOL_CHARS :: string
  AMBIGUOUS_CHARS :: string

text \<open>The word lists, as far as the source prints them.\<close>

definition ENGLISH_WORDS :: "string list" where
  "ENGLISH_WORDS =
     [''love'', ''star'', ''rock'', ''blue'', ''dragon'', ''red'', ''black'', ''angel'']"

definition SPANISH_WORDS :: "string list" where
  "SPANISH_WORDS =
     [''agua'', ''aire'', ''alma'', ''amigo'', ''amor'', ''angel'', ''arbol'', ''arena'']"

fun WORDS_BY_LANGUAGE :: "Language \<Rightarrow> string list" where
  "WORDS_BY_LANGUAGE en = ENGLISH_WORDS"
| "WORDS_BY_LANGUAGE es = SPANISH_WORDS"

subsection \<open>cryptoUtils.ts\<close>

text \<open>
  The browser is a parameter \<open>rnd\<close> of the model. Its entropy source
  \<^verbatim>\<open>crypto.getRandomValues\<close> is \<open>random_values\<close>: the \<open>k\<close>-th unsigned 32-bit
  value it hands out. Its engine has a largest length \<open>max_array_length\<close> for which
  \<^verbatim>\<open>new Uint32Array(length)\<close> succeeds. An array within the quota of
  \<^verbatim>\<open>crypto.getRandomValues\<close> (at most 65536 bytes, that is 16384 elements) is taken
  to be allocated and filled on every platform.
\<close>

type_synonym u32 = "32 word"

record platform =
  random_values :: "nat \<Rightarrow> u32"
  max_array_length :: nat

text \<open>
  \<^verbatim>\<open>getRandomNumber(max)\<close> fills a one-element array and so draws the value at
  position \<open>k\<close>. For \<open>max = 0\<close> the JavaScript remainder is \<^verbatim>\<open>NaN\<close>; the callers
  below test for that case before they use the result.
\<close>

definition getRandomNumber :: "platform \<Rightarrow> nat \<Rightarrow> nat \<Rightarrow> nat" where
  "getRandomNumber rnd k max_arg = unat (random_values rnd k) mod max_arg"

text \<open>
  \<^verbatim>\<open>getRandomNumbers(length)\<close>. The constructor \<^verbatim>\<open>new Uint32Array(length)\<close> throws
  a \<^verbatim>\<open>RangeError\<close> for a negative length and for a length beyond what the engine
  allocates; then \<^verbatim>\<open>crypto.getRandomValues\<close> throws a \<^verbatim>\<open>QuotaExceededError\<close> for
  an array of more than 16384 elements, and fills a shorter one.
\<close>

definition getRandomNumbers :: "platform \<Rightarrow> int \<Rightarrow> js_error + u32 list" where
  "getRandomNumbers rnd len =
     (if len < 0 then Inl RangeError
      else if len \<le> 16384 then Inr (map (random_values rnd) [0..<nat len])
      else if max_array_length rnd < nat len then Inl RangeError
      else Inl QuotaExceededError)"

subsection \<open>generatePassword\<close>

text \<open>Lines 13 to 23: the alphabet, built from the flags.\<close>

definition assemble_chars :: "CharacterSets \<Rightarrow> PasswordOptions \<Rightarrow> string" where
  "assemble_chars cs options =
     (let chars0 = [];
          chars1 = (if includeLowercase options then chars0 @ LOWERCASE_CHARS cs else chars0);
          chars2 = (if includeUppercase options then chars1 @ UPPERCASE_CHARS cs else chars1);
          chars3 = (if includeNumbers options then chars2 @ NUMBER_CHARS cs else chars2);
          chars4 = (if includeSymbols options then chars3 @ SYMBOL_CHARS cs else chars3)
      in if excludeAmbiguous options
         then filter (\<lambda>char. char \<notin> set (AMBIGUOUS_CHARS cs)) chars4
         else chars4)"

text \<open>
  The loop \<^verbatim>\<open>for (let i = 0; i < options.length; i++)\<close>, run over the random values
  in order; \<open>pw\<close> is the string built so far.
\<close>

fun password_loop :: "string \<Rightarrow> u32 list \<Rightarrow> string \<Rightarrow> string" where
  "password_loop chars [] pw = pw"
| "password_loop chars (v # vs) pw =
     password_loop chars vs (pw @ [chars ! (unat v mod length chars)])"

definition generatePassword ::
  "CharacterSets \<Rightarrow> platform \<Rightarrow> PasswordOptions \<Rightarrow> js_error + string" where
  "generatePassword cs rnd options =
     (let chars = assemble_chars cs options
      in if length chars = 0
         then Inl (Error ''At least one character set must be selected'')
         else (case getRandomNumbers rnd (length_opt options) of
                 Inl e \<Rightarrow> Inl e
               | Inr cryptoValues \<Rightarrow> Inr (password_loop chars cryptoValues [])))"

subsection \<open>generateWordBasedPassword\<close>

text \<open>
  The function reads \<^verbatim>\<open>options.language\<close>. The interface \<^verbatim>\<open>PasswordOptions\<close>
  declares \<^verbatim>\<open>wordLanguage\<close> and no property \<^verbatim>\<open>language\<close>, and both call sites
  build the argument from such an object (\<^verbatim>\<open>{...options, wordLanguage: ...}\<close>), so
  the read gives \<^verbatim>\<open>undefined\<close>, which is \<open>None\<close> here; indexing the table
  \<^verbatim>\<open>WORDS_BY_LANGUAGE\<close> with it gives \<^verbatim>\<open>undefined\<close> again.
\<close>

definition language :: "PasswordOptions \<Rightarrow> Language option" where
  "language options = None"

text \<open>\<^verbatim>\<open>toUpperCase\<close> on one character, for the ASCII letters (codes 97 to 122).\<close>

definition toUpperCase :: "char \<Rightarrow> char" where
  "toUpperCase c =
     (let code = (of_char c :: nat)
      in if 97 \<le> code \<and> code \<le> 122 then char_of (code - 32) else c)"

text \<open>\<^verbatim>\<open>word.charAt(0).toUpperCase() + word.slice(1)\<close>\<close>

fun capitalizeFirstLetter :: "string \<Rightarrow> string" where
  "capitalizeFirstLetter [] = []"
| "capitalizeFirstLetter (c # cs) = toUpperCase c # cs"

text \<open>
  \<^verbatim>\<open>Array.from({ length: n }, callback)\<close>: the callback runs \<open>n\<close> times, drawing the
  values at positions \<open>k\<close>, \<open>k + 1\<close>, ... It throws a \<^verbatim>\<open>TypeError\<close> when
  \<open>wordList\<close> is \<^verbatim>\<open>undefined\<close> (the read of \<^verbatim>\<open>wordList.length\<close>), and when the list
  is empty (the index is \<^verbatim>\<open>NaN\<close>, the element \<^verbatim>\<open>undefined\<close>, and
  \<^verbatim>\<open>charAt\<close> is read from it).
\<close>

fun draw_words :: "string list option \<Rightarrow> platform \<Rightarrow> nat \<Rightarrow> nat \<Rightarrow> js_error + string list" where
  "draw_words wordList rnd k 0 = Inr []"
| "draw_words wordList rnd k (Suc n) =
     (case wordList of
        None \<Rightarrow> Inl TypeError
      | Some ws \<Rightarrow>
          if length ws = 0 then Inl TypeError
          else (case draw_words wordList rnd (Suc k) n of
                  Inl e \<Rightarrow> Inl e
                | Inr rest \<Rightarrow>
                    Inr (capitalizeFirstLetter (ws ! getRandomNumber rnd k (length ws)) # rest)))"

text \<open>\<^verbatim>\<open>Number.prototype.toString\<close> on a non-negative integer.\<close>

definition digit_char :: "nat \<Rightarrow> char" where
  "digit_char d = char_of (48 + d)"

fun toString :: "nat \<Rightarrow> string" where
  "toString n = (if n < 10 then [digit_char n] else toString (n div 10) @ [digit_char (n mod 10)])"

text \<open>\<^verbatim>\<open>Array.prototype.join\<close>\<close>

fun join :: "string \<Rightarrow> string list \<Rightarrow> string" where
  "join sep [] = []"
| "join sep [w] = w"
| "join sep (w # ws) = w @ sep @ join sep ws"

definition generateWordBasedPassword :: "platform \<Rightarrow> PasswordOptions \<Rightarrow> js_error + string" where
  "generateWordBasedPassword rnd options =
     (let wordList = map_option WORDS_BY_LANGUAGE (language options);
          n = nat (wordCount options)
      in case draw_words wordList rnd 0 n of
           Inl e \<Rightarrow> Inl e
         | Inr words \<Rightarrow>
             (let words' = (if includeNumbers options
                            then words @ [toString (getRandomNumber rnd n 900 + 100)]
                            else words)
              in Inr (join (wordSeparator options) words')))"

text \<open>The options the component starts with.\<close>

definition default_options :: PasswordOptions where
  "default_options =
     \<lparr>length_opt = 16, includeLowercase = True, includeUppercase = True,
      includeNumbers = True, includeSymbols = True, excludeAmbiguous = False,
      wordCount = 4, wordSeparator = ''-'', wordLanguage = en\<rparr>"

section \<open>Concrete inputs\<close>

text \<open>
  The simulator after the length slider was moved to 4 and the start button pressed:
  sequential method, basic CPU, alphabet of 26.
\<close>

definition running_state :: SimulatorState where
  "running_state = handleStart (initial_state\<lparr>password := \<lparr>length_pw = 4, charset = 26\<rparr>\<rparr>)"

text \<open>
  A set of character classes and a platform to run the generators on: its entropy source
  hands out 3, 10, 17, ..., and its arrays hold up to \<open>2 ^ 32 - 1\<close> elements.
\<close>

definition sample_sets :: CharacterSets where
  "sample_sets =
     \<lparr>LOWERCASE_CHARS = ''abcdefghijklmnopqrstuvwxyz'',
      UPPERCASE_CHARS = ''ABCDEFGHIJKLMNOPQRSTUVWXYZ'',
      NUMBER_CHARS = ''0123456789'',
      SYMBOL_CHARS = ''!@#$%^&*'',
      AMBIGUOUS_CHARS = ''l1IO0''\<rparr>"

definition sample_entropy :: platform where
  "sample_entropy =
     \<lparr>random_values = (\<lambda>k. of_nat (7 * k + 3)), max_array_length = 4294967295\<rparr>"

text \<open>The default options with the length set beyond the quota, and below zero.\<close>

definition over_quota_options :: PasswordOptions where
  "over_quota_options = default_options\<lparr>length_opt := 16385\<rparr>"

definition negative_length_options :: PasswordOptions where
  "negative_length_options = default_options\<lparr>length_opt := - 3\<rparr>"

text \<open>The default options with every character class switched off.\<close>

definition no_class_options :: PasswordOptions where
  "no_class_options =
     default_options\<lparr>includeLowercase := False, includeUppercase := False,
       includeNumbers := False, includeSymbols := False\<rparr>"

section \<open>Properties of the simulator\<close>

subsection \<open>Auxiliary facts\<close>

lemma find_attack_method:
  "find (\<lambda>m. id_am m = i) ATTACK_METHODS = Some (case i of
      sequential \<Rightarrow>
        \<lparr>id_am = sequential, baseSpeed = 1, successRate = 1, complexityMultiplier = 1\<rparr>
    | dictionary \<Rightarrow>
        \<lparr>id_am = dictionary, baseSpeed = 100, successRate = 15 / 100,
         complexityMultiplier = 1 / 10\<rparr>
    | hybrid \<Rightarrow>
        \<lparr>id_am = hybrid, baseSpeed = 10, successRate = 45 / 100,
         complexityMultiplier = 5 / 10\<rparr>)"
  by (cases i) (simp_all add: ATTACK_METHODS_def)

lemma found_multiplier_nonneg:
  "find (\<lambda>m. id_am m = i) ATTACK_METHODS = Some am \<Longrightarrow> 0 \<le> complexityMultiplier am"
  by (cases i) (auto simp: find_attack_method)

lemma found_sequential:
  "find (\<lambda>m. id_am m = sequential) ATTACK_METHODS = Some am
   \<Longrightarrow> complexityMultiplier am = 1 \<and> baseSpeed am = 1"
  by (auto simp: find_attack_method)

lemma powerCost_pos: "0 < powerCost (HARDWARE_PROFILES hw)"
  by (cases hw) simp_all

lemma log_2_4: "log 2 4 = 2"
proof -
  have "log 2 (2 ^ 2) = (2::real)" by (subst log_pow_cancel) simp_all
  then show ?thesis by simp
qed

text \<open>While the simulation runs, a frame is one call of \<open>animate\<close> and cannot throw.\<close>

lemma frame_running:
  assumes "isRunning (simulation s)"
  obtains am where
    "find (\<lambda>m. id_am m = method_id (simulation s)) ATTACK_METHODS = Some am"
    "frame elapsed s =
       Inr (animate am
             (calculatePasswordSpace (length_pw (password s)) (charset (password s)) am)
             (calculateHashingSpeed (baseSpeed_hw (HARDWARE_PROFILES (hardware (simulation s))))
                (hardware (simulation s)) (length_pw (password s)))
             elapsed s)"
  using assms by (simp add: frame_def find_attack_method Let_def)

text \<open>What one call of \<open>animate\<close> stores in each cell.\<close>

lemma animate_attempts:
  "attempts (stats (animate am T H e s)) = min (of_int \<lfloor>e * H * baseSpeed am\<rfloor>) T"
  by (simp add: animate_def Let_def)

lemma animate_progress:
  "progress (simulation (animate am T H e s)) =
     Math_min (js_times (js_div (min (of_int \<lfloor>e * H * baseSpeed am\<rfloor>) T) T) 100) 100"
  by (simp add: animate_def Let_def)

lemma animate_energyCost:
  "energyCost (stats (animate am T H e s)) =
     e / 3600 * powerCost (HARDWARE_PROFILES (hardware (simulation s)))"
  by (simp add: animate_def Let_def calculateEnergyCost_def)

lemma animate_passwordsPerWatt:
  "passwordsPerWatt (stats (animate am T H e s)) =
     js_div (attempts (stats (animate am T H e s)))
            (energyCost (stats (animate am T H e s)) * 1000)"
  by (simp add: animate_def Let_def)

lemma animate_estimated:
  "estimatedTimeToComplete (stats (animate am T H e s)) = js_div T (H * baseSpeed am)"
  by (simp add: animate_def Let_def)

lemma animate_graphData:
  "graphData (animate am T H e s) = setGraphData_append (graphData s)
     \<lparr>time = e, attempts_gp = H,
      energyUsage = energyCost (stats (animate am T H e s)),
      efficiency = passwordsPerWatt (stats (animate am T H e s)),
      progress_gp = js_times (js_div (attempts (stats (animate am T H e s))) T) 100\<rparr>"
  by (simp add: animate_def Let_def)

lemma progress_100_iff:
  assumes "0 < T" "a \<le> T"
  shows "Math_min (js_times (js_div a T) 100) 100 = Fin 100 \<longleftrightarrow> a = T"
  using assms by (auto simp: js_div_def min_def field_simps)

lemma space_sequential:
  assumes "complexityMultiplier am = 1"
  shows "calculatePasswordSpace len cs am = real cs ^ len"
proof -
  have "real cs ^ len = real (cs ^ len)" by simp
  with assms show ?thesis
    unfolding calculatePasswordSpace_def Let_def by (simp del: of_nat_power)
qed

lemma space_nonneg:
  assumes "0 \<le> complexityMultiplier am"
  shows "0 \<le> calculatePasswordSpace len cs am"
proof -
  have "0 \<le> real cs ^ len * complexityMultiplier am" using assms by simp
  then have "0 \<le> \<lceil>real cs ^ len * complexityMultiplier am\<rceil>" by linarith
  then show ?thesis by (simp add: calculatePasswordSpace_def)
qed

lemma setGraphData_append_props:
  "length (setGraphData_append prev pt) = min 30 (Suc (length prev))"
  "setGraphData_append prev pt = drop (Suc (length prev) - 30) (prev @ [pt])"
  "last (setGraphData_append prev pt) = pt"
  "suffix (setGraphData_append prev pt) (prev @ [pt])"
  by (auto simp: setGraphData_append_def Let_def suffix_drop)

lemma running_state_simps:
  "isRunning (simulation running_state)"
  "method_id (simulation running_state) = sequential"
  "hardware (simulation running_state) = cpu_basic"
  "length_pw (password running_state) = 4"
  "charset (password running_state) = 26"
  "graphData running_state = []"
  by (simp_all add: running_state_def handleStart_def initial_state_def)

lemma frame_running_state:
  "frame elapsed running_state =
     Inr (animate
            \<lparr>id_am = sequential, baseSpeed = 1, successRate = 1, complexityMultiplier = 1\<rparr>
            456976 250000 elapsed running_state)"
  by (simp add: frame_def running_state_simps find_attack_method Let_def
      calculateHashingSpeed_def log_2_4 calculatePasswordSpace_def)

subsection \<open>The worked scenario\<close>

text \<open>
  Claim C4. For a password of length 4 over an alphabet of 26, the sequential method
  (complexity multiplier 1, base speed 1) and the basic CPU (base speed 500000): the
  search space is \<open>26 ^ 4 = 456976\<close>, the hashing speed is \<open>500000 / 2 = 250000\<close>
  whatever is passed as first argument, and every frame stores the estimated time
  \<open>456976 / 250000\<close> seconds, which is 1.83 to two decimals.
\<close>

theorem scenario_length4_alphabet26:
  "find (\<lambda>m. id_am m = sequential) ATTACK_METHODS
     = Some \<lparr>id_am = sequential, baseSpeed = 1, successRate = 1, complexityMultiplier = 1\<rparr>
   \<and> baseSpeed_hw (HARDWARE_PROFILES cpu_basic) = 500000
   \<and> calculatePasswordSpace 4 26 (hd ATTACK_METHODS) = 26 ^ 4
   \<and> calculatePasswordSpace 4 26 (hd ATTACK_METHODS) = 456976
   \<and> calculateHashingSpeed b cpu_basic 4 = 250000
   \<and> map_sum id (estimatedTimeToComplete \<circ> stats) (frame elapsed running_state)
        = Inr (Fin (456976 / 250000))
   \<and> \<bar>456976 / 250000 - 183 / 100\<bar> < (5 / 1000 :: real)"
  by (simp add: find_attack_method frame_running_state animate_estimated
      calculateHashingSpeed_def log_2_4 calculatePasswordSpace_def ATTACK_METHODS_def
      js_div_def)

subsection \<open>Attempts and progress\<close>

text \<open>
  Claim C5. While the simulation runs with the sequential method (the one whose
  complexity multiplier is 1) on a non-empty alphabet, a frame at any elapsed time stores
  as attempts the minimum of the raw count and the search space, so the attempts never
  exceed \<open>charset ^ length\<close>, and the stored progress is 100 exactly when the attempts
  equal the search space.
\<close>

theorem attempts_capped_progress_100:
  assumes "isRunning (simulation s)" and "method_id (simulation s) = sequential"
    and "0 < charset (password s)"
  shows "\<exists>s'. frame elapsed s = Inr s'
     \<and> attempts (stats s') =
         min (of_int \<lfloor>elapsed
                * calculateHashingSpeed
                    (baseSpeed_hw (HARDWARE_PROFILES (hardware (simulation s))))
                    (hardware (simulation s)) (length_pw (password s))
                * 1\<rfloor>)
             (real (charset (password s)) ^ length_pw (password s))
     \<and> attempts (stats s') \<le> real (charset (password s)) ^ length_pw (password s)
     \<and> (progress (simulation s') = Fin 100
          \<longleftrightarrow> attempts (stats s') = real (charset (password s)) ^ length_pw (password s))"
proof -
  from assms(1) obtain am where
    f: "find (\<lambda>m. id_am m = method_id (simulation s)) ATTACK_METHODS = Some am" and
    fr: "frame elapsed s =
       Inr (animate am
             (calculatePasswordSpace (length_pw (password s)) (charset (password s)) am)
             (calculateHashingSpeed (baseSpeed_hw (HARDWARE_PROFILES (hardware (simulation s))))
                (hardware (simulation s)) (length_pw (password s)))
             elapsed s)"
    by (rule frame_running)
  from f assms(2) have cm: "complexityMultiplier am = 1" and bs: "baseSpeed am = 1"
    by (simp_all add: found_sequential)
  let ?T = "real (charset (password s)) ^ length_pw (password s)"
  have T: "calculatePasswordSpace (length_pw (password s)) (charset (password s)) am = ?T"
    using cm by (rule space_sequential)
  have Tpos: "0 < ?T" using assms(3) by simp
  show ?thesis
    unfolding fr T
    by (intro exI conjI, rule refl)
       (simp_all only: animate_attempts animate_progress bs
          progress_100_iff [OF Tpos min.cobounded2] min.cobounded2)
qed

theorem attempts_capped_progress_100_witness:
  "isRunning (simulation running_state) \<and> method_id (simulation running_state) = sequential
   \<and> 0 < charset (password running_state)
   \<and> (\<exists>s'. frame 1 running_state = Inr s' \<and> attempts (stats s') \<le> 456976
         \<and> (progress (simulation s') = Fin 100 \<longleftrightarrow> attempts (stats s') = 456976))"
  using attempts_capped_progress_100 [of running_state 1]
  by (simp add: running_state_simps) blast

subsection \<open>Efficiency\<close>

text \<open>
  Claim C6, as the specification states it, asks for a guard that makes the efficiency
  zero when the energy cost is zero. The code divides without a guard: in the frame at
  elapsed time 0 of the running simulator, attempts and energy cost are both 0 and the
  stored efficiency is \<^verbatim>\<open>NaN\<close>, not 0.
\<close>

theorem efficiency_at_zero_counterexample:
  "map_sum id (passwordsPerWatt \<circ> stats) (frame 0 running_state) = Inr NaN
   \<and> NaN \<noteq> Fin 0"
  by (simp add: frame_running_state animate_passwordsPerWatt animate_energyCost
      animate_attempts js_div_def)

text \<open>
  Claim C6, amended. While the simulation runs, a frame at a non-zero elapsed time has a
  non-zero energy cost and stores the finite efficiency
  \<open>attempts / (energyCost * 1000)\<close>; a frame at elapsed time 0 stores \<^verbatim>\<open>NaN\<close>,
  the value of the unguarded \<^verbatim>\<open>0 / 0\<close>.
\<close>

theorem efficiency_unguarded:
  assumes "isRunning (simulation s)"
  shows "\<exists>s'. frame elapsed s = Inr s'
     \<and> (elapsed = 0 \<longrightarrow> passwordsPerWatt (stats s') = NaN)
     \<and> (elapsed \<noteq> 0 \<longrightarrow> energyCost (stats s') \<noteq> 0
           \<and> passwordsPerWatt (stats s')
               = Fin (attempts (stats s') / (energyCost (stats s') * 1000)))"
proof -
  from assms(1) obtain am where
    f: "find (\<lambda>m. id_am m = method_id (simulation s)) ATTACK_METHODS = Some am" and
    fr: "frame elapsed s =
       Inr (animate am
             (calculatePasswordSpace (length_pw (password s)) (charset (password s)) am)
             (calculateHashingSpeed (baseSpeed_hw (HARDWARE_PROFILES (hardware (simulation s))))
                (hardware (simulation s)) (length_pw (password s)))
             elapsed s)"
    by (rule frame_running)
  have T: "0 \<le> calculatePasswordSpace (length_pw (password s)) (charset (password s)) am"
    using f by (intro space_nonneg found_multiplier_nonneg)
  have pc: "powerCost (HARDWARE_PROFILES (hardware (simulation s))) \<noteq> 0"
    using powerCost_pos [of "hardware (simulation s)"] by simp
  let ?s' = "animate am
             (calculatePasswordSpace (length_pw (password s)) (charset (password s)) am)
             (calculateHashingSpeed (baseSpeed_hw (HARDWARE_PROFILES (hardware (simulation s))))
                (hardware (simulation s)) (length_pw (password s)))
             elapsed s"
  have z: "elapsed = 0 \<longrightarrow> passwordsPerWatt (stats ?s') = NaN"
    using T by (simp add: animate_passwordsPerWatt animate_energyCost animate_attempts js_div_def)
  have e: "elapsed \<noteq> 0 \<longrightarrow> energyCost (stats ?s') \<noteq> 0"
    using pc by (simp add: animate_energyCost)
  have nz: "elapsed \<noteq> 0 \<longrightarrow>
      passwordsPerWatt (stats ?s') = Fin (attempts (stats ?s') / (energyCost (stats ?s') * 1000))"
    using e by (simp add: animate_passwordsPerWatt js_div_def)
  from fr z e nz show ?thesis by blast
qed

theorem efficiency_unguarded_witness:
  "isRunning (simulation running_state)
   \<and> (\<exists>s'. frame 2 running_state = Inr s' \<and> energyCost (stats s') \<noteq> 0
         \<and> passwordsPerWatt (stats s')
             = Fin (attempts (stats s') / (energyCost (stats s') * 1000)))"
  using efficiency_unguarded [of running_state 2] by (simp add: running_state_simps)

subsection \<open>Reset\<close>

text \<open>
  Claim C7. From any state whatever, the reset button gives a state with elapsed time 0,
  attempts 0, progress 0, an empty time series, and the simulation not running.
\<close>

theorem handleReset_clears:
  "timeElapsed (stats (handleReset s)) = 0
   \<and> attempts (stats (handleReset s)) = 0
   \<and> progress (simulation (handleReset s)) = Fin 0
   \<and> graphData (handleReset s) = []
   \<and> isRunning (simulation (handleReset s)) = False"
  by (simp add: handleReset_def)

subsection \<open>The time series\<close>

text \<open>
  Claim C8. While the simulation runs, a frame appends exactly one point, the one for
  this frame's elapsed time, and keeps the last 30 entries of the result: the series has
  \<open>min 30 (n + 1)\<close> points, at most 30, it is the old series followed by the new point
  with the oldest entries dropped from the front, unchanged and in order, and its last
  entry is the new point.
\<close>

theorem graphData_bounded_30:
  assumes "isRunning (simulation s)"
  shows "\<exists>s' pt. frame elapsed s = Inr s' \<and> time pt = elapsed
     \<and> length (graphData s') \<le> 30
     \<and> length (graphData s') = min 30 (Suc (length (graphData s)))
     \<and> graphData s' = drop (Suc (length (graphData s)) - 30) (graphData s @ [pt])
     \<and> last (graphData s') = pt"
proof -
  from assms(1) obtain am where
    fr: "frame elapsed s =
       Inr (animate am
             (calculatePasswordSpace (length_pw (password s)) (charset (password s)) am)
             (calculateHashingSpeed (baseSpeed_hw (HARDWARE_PROFILES (hardware (simulation s))))
                (hardware (simulation s)) (length_pw (password s)))
             elapsed s)"
    by (rule frame_running)
  define s' where "s' = animate am
             (calculatePasswordSpace (length_pw (password s)) (charset (password s)) am)
             (calculateHashingSpeed (baseSpeed_hw (HARDWARE_PROFILES (hardware (simulation s))))
                (hardware (simulation s)) (length_pw (password s)))
             elapsed s"
  obtain pt where t: "time pt = elapsed"
    and g: "graphData s' = setGraphData_append (graphData s) pt"
    unfolding s'_def by (metis animate_graphData GraphPoint.select_convs(1))
  have "frame elapsed s = Inr s'" by (simp only: fr s'_def)
  moreover have "length (graphData s') = min 30 (Suc (length (graphData s)))"
    by (simp only: g setGraphData_append_props(1))
  moreover then have "length (graphData s') \<le> 30" by simp
  moreover have "graphData s' = drop (Suc (length (graphData s)) - 30) (graphData s @ [pt])"
    by (simp only: g setGraphData_append_props(2))
  moreover have "last (graphData s') = pt" by (simp only: g setGraphData_append_props(3))
  ultimately show ?thesis using t by blast
qed

theorem graphData_bounded_30_witness:
  "isRunning (simulation running_state)
   \<and> (\<exists>s' pt. frame 5 running_state = Inr s' \<and> time pt = 5 \<and> graphData s' = [pt])"
  using graphData_bounded_30 [of running_state 5] by (auto simp: running_state_simps)

subsection \<open>The unused parameter\<close>

text \<open>
  Claim C10. \<open>calculateHashingSpeed\<close> does not depend on its first argument: for a fixed
  hardware key and password length any two first arguments give the same result, which
  is the floor of the profile's base speed over \<open>max 1 (log 2 length)\<close> (over 1 for
  length 0).
\<close>

theorem calculateHashingSpeed_ignores_baseSpeed:
  "calculateHashingSpeed b1 hw n = calculateHashingSpeed b2 hw n
   \<and> (0 < n \<longrightarrow> calculateHashingSpeed b1 hw n
        = of_int \<lfloor>baseSpeed_hw (HARDWARE_PROFILES hw) / max 1 (log 2 (real n))\<rfloor>)
   \<and> (n = 0 \<longrightarrow> calculateHashingSpeed b1 hw n
        = of_int \<lfloor>baseSpeed_hw (HARDWARE_PROFILES hw)\<rfloor>)"
  by (simp add: calculateHashingSpeed_def)

theorem calculateHashingSpeed_ignores_baseSpeed_witness:
  "(0::nat) < 4
   \<and> calculateHashingSpeed 1 cpu_basic 4 = calculateHashingSpeed 500000 cpu_basic 4
   \<and> calculateHashingSpeed 1 cpu_basic 4 = 250000"
  using calculateHashingSpeed_ignores_baseSpeed [of 1 cpu_basic 4 500000]
  by (simp add: log_2_4)

section \<open>Properties of the generators\<close>

subsection \<open>Auxiliary facts\<close>

text \<open>The loop appends one character of the alphabet for each random value.\<close>

lemma password_loop_eq:
  "password_loop chars vs pw = pw @ map (\<lambda>v. chars ! (unat v mod length chars)) vs"
  by (induction vs arbitrary: pw) simp_all

lemma password_loop_length: "length (password_loop chars vs pw) = length pw + length vs"
  by (simp add: password_loop_eq)

lemma password_loop_set:
  assumes "chars \<noteq> []"
  shows "set (password_loop chars vs pw) \<subseteq> set pw \<union> set chars"
  using assms by (auto simp: password_loop_eq)

text \<open>Membership in the assembled alphabet, read off the flags.\<close>

lemma assemble_chars_mem:
  "c \<in> set (assemble_chars cs options) \<longleftrightarrow>
     ((includeLowercase options \<and> c \<in> set (LOWERCASE_CHARS cs))
      \<or> (includeUppercase options \<and> c \<in> set (UPPERCASE_CHARS cs))
      \<or> (includeNumbers options \<and> c \<in> set (NUMBER_CHARS cs))
      \<or> (includeSymbols options \<and> c \<in> set (SYMBOL_CHARS cs)))
     \<and> (excludeAmbiguous options \<longrightarrow> c \<notin> set (AMBIGUOUS_CHARS cs))"
  by (auto simp: assemble_chars_def Let_def)

lemma assemble_chars_no_class:
  assumes "\<not> includeLowercase options" "\<not> includeUppercase options"
    "\<not> includeNumbers options" "\<not> includeSymbols options"
  shows "assemble_chars cs options = []"
  using assms by (simp add: assemble_chars_def)

lemma sample_assemble:
  "assemble_chars sample_sets default_options =
     ''abcdefghijklmnopqrstuvwxyzABCDEFGHIJKLMNOPQRSTUVWXYZ0123456789!@#$%^&*''"
  by (simp add: assemble_chars_def sample_sets_def default_options_def)

text \<open>
  The word loop: without a word list every run with at least one word throws; with a
  non-empty list it gives \<open>n\<close> capitalised words of the list.
\<close>

lemma draw_words_undefined:
  "draw_words None rnd k n = (if n = 0 then Inr [] else Inl TypeError)"
  by (cases n) simp_all

lemma draw_words_defined:
  assumes "ws \<noteq> []"
  shows "\<exists>xs. draw_words (Some ws) rnd k n = Inr xs \<and> length xs = n
           \<and> set xs \<subseteq> capitalizeFirstLetter ` set ws"
proof (induction n arbitrary: k)
  case 0
  show ?case by simp
next
  case (Suc n)
  from Suc [of "Suc k"] obtain rest where
    r: "draw_words (Some ws) rnd (Suc k) n = Inr rest" "length rest = n"
       "set rest \<subseteq> capitalizeFirstLetter ` set ws"
    by blast
  have "getRandomNumber rnd k (length ws) < length ws"
    using assms by (simp add: getRandomNumber_def)
  then have "ws ! getRandomNumber rnd k (length ws) \<in> set ws" by simp
  with r assms show ?case by simp
qed

subsection \<open>Character-based generation\<close>

text \<open>
  Claim C1, as the specification states it, promises a password of \<open>options.length\<close>
  characters for every configuration whose alphabet is not empty. The code asks the
  platform for \<open>options.length\<close> random values first: with the default classes, a length
  of 16385 exceeds the quota of \<^verbatim>\<open>crypto.getRandomValues\<close> and a length of \<open>-3\<close>
  cannot be allocated, and in both cases the call throws instead of returning a string.
\<close>

theorem generatePassword_length_counterexample:
  "assemble_chars sample_sets over_quota_options \<noteq> []
   \<and> generatePassword sample_sets sample_entropy over_quota_options = Inl QuotaExceededError
   \<and> assemble_chars sample_sets negative_length_options \<noteq> []
   \<and> generatePassword sample_sets sample_entropy negative_length_options = Inl RangeError"
  by (simp add: generatePassword_def getRandomNumbers_def assemble_chars_def
      sample_sets_def sample_entropy_def default_options_def over_quota_options_def
      negative_length_options_def)

text \<open>
  Claim C1, amended. For options whose assembled alphabet is not empty and whose length
  is between 0 and 16384, \<open>generatePassword\<close> returns a string; its length is
  \<open>options.length\<close>, and each of its characters is in the assembled alphabet: it belongs
  to a character class whose flag is set and, when \<open>excludeAmbiguous\<close> is set, it is not
  an ambiguous character. For a negative length and for a length above 16384 the call
  throws and returns no password.
\<close>

theorem generatePassword_length_and_alphabet:
  assumes "assemble_chars cs options \<noteq> []"
  shows "(0 \<le> length_opt options \<and> length_opt options \<le> 16384 \<longrightarrow>
      (\<exists>pw. generatePassword cs rnd options = Inr pw
         \<and> int (length pw) = length_opt options
         \<and> (\<forall>c \<in> set pw. c \<in> set (assemble_chars cs options)
               \<and> ((includeLowercase options \<and> c \<in> set (LOWERCASE_CHARS cs))
                  \<or> (includeUppercase options \<and> c \<in> set (UPPERCASE_CHARS cs))
                  \<or> (includeNumbers options \<and> c \<in> set (NUMBER_CHARS cs))
                  \<or> (includeSymbols options \<and> c \<in> set (SYMBOL_CHARS cs)))
               \<and> (excludeAmbiguous options \<longrightarrow> c \<notin> set (AMBIGUOUS_CHARS cs)))))
     \<and> (length_opt options < 0 \<or> 16384 < length_opt options \<longrightarrow>
          (\<exists>e. generatePassword cs rnd options = Inl e))"
proof (intro conjI impI)
  assume b: "0 \<le> length_opt options \<and> length_opt options \<le> 16384"
  let ?chars = "assemble_chars cs options"
  let ?pw = "password_loop ?chars
               (map (random_values rnd) [0..<nat (length_opt options)]) []"
  have g: "generatePassword cs rnd options = Inr ?pw"
    using assms b by (simp add: generatePassword_def getRandomNumbers_def Let_def)
  have l: "int (length ?pw) = length_opt options"
    using b by (simp add: password_loop_length)
  have m: "\<forall>c \<in> set ?pw. c \<in> set ?chars"
    using password_loop_set
            [OF assms, of "map (random_values rnd) [0..<nat (length_opt options)]" "[]"]
    by auto
  from g l m show "\<exists>pw. generatePassword cs rnd options = Inr pw
         \<and> int (length pw) = length_opt options
         \<and> (\<forall>c \<in> set pw. c \<in> set (assemble_chars cs options)
               \<and> ((includeLowercase options \<and> c \<in> set (LOWERCASE_CHARS cs))
                  \<or> (includeUppercase options \<and> c \<in> set (UPPERCASE_CHARS cs))
                  \<or> (includeNumbers options \<and> c \<in> set (NUMBER_CHARS cs))
                  \<or> (includeSymbols options \<and> c \<in> set (SYMBOL_CHARS cs)))
               \<and> (excludeAmbiguous options \<longrightarrow> c \<notin> set (AMBIGUOUS_CHARS cs)))"
    by (auto simp: assemble_chars_mem)
next
  assume "length_opt options < 0 \<or> 16384 < length_opt options"
  with assms show "\<exists>e. generatePassword cs rnd options = Inl e"
    by (auto simp: generatePassword_def getRandomNumbers_def Let_def)
qed

theorem generatePassword_length_and_alphabet_witness:
  "assemble_chars sample_sets default_options \<noteq> []
   \<and> 0 \<le> length_opt default_options \<and> length_opt default_options \<le> 16384
   \<and> (\<exists>pw. generatePassword sample_sets sample_entropy default_options = Inr pw
         \<and> length pw = 16)
   \<and> 16384 < length_opt over_quota_options
   \<and> (\<exists>e. generatePassword sample_sets sample_entropy over_quota_options = Inl e)"
proof -
  have h1: "assemble_chars sample_sets default_options \<noteq> []"
    by (simp add: sample_assemble)
  have h2: "0 \<le> length_opt default_options \<and> length_opt default_options \<le> 16384"
    and l: "length_opt default_options = 16"
    by (simp_all add: default_options_def)
  have h3: "assemble_chars sample_sets over_quota_options \<noteq> []"
    by (simp add: assemble_chars_def sample_sets_def default_options_def
        over_quota_options_def)
  have h4: "16384 < length_opt over_quota_options"
    by (simp add: over_quota_options_def)
  from generatePassword_length_and_alphabet [OF h1, of sample_entropy] h2 l
  have a: "\<exists>pw. generatePassword sample_sets sample_entropy default_options = Inr pw
         \<and> length pw = 16"
    by auto
  from generatePassword_length_and_alphabet [OF h3, of sample_entropy] h4
  have b: "\<exists>e. generatePassword sample_sets sample_entropy over_quota_options = Inl e"
    by blast
  from h1 h2 h4 a b show ?thesis by simp
qed

text \<open>
  Claim C2. With the four class flags all false, \<open>generatePassword\<close> throws the
  empty-alphabet error and returns no password, whatever the length (negative lengths
  included) and the other options are.
\<close>

theorem generatePassword_no_class_fails:
  assumes "\<not> includeLowercase options" "\<not> includeUppercase options"
    "\<not> includeNumbers options" "\<not> includeSymbols options"
  shows "generatePassword cs rnd options =
     Inl (Error ''At least one character set must be selected'')"
  using assms by (simp add: generatePassword_def assemble_chars_no_class)

theorem generatePassword_no_class_fails_witness:
  "\<not> includeLowercase no_class_options \<and> \<not> includeUppercase no_class_options
   \<and> \<not> includeNumbers no_class_options \<and> \<not> includeSymbols no_class_options
   \<and> generatePassword sample_sets sample_entropy no_class_options =
     Inl (Error ''At least one character set must be selected'')"
  using generatePassword_no_class_fails [of no_class_options sample_sets sample_entropy]
  by (simp add: no_class_options_def)

text \<open>
  Claim C9, as the specification states it, has every non-positive length rejected with
  a configuration error. The code never tests the length: with the default options and
  length 0 it returns the empty string.
\<close>

theorem zero_length_counterexample:
  "generatePassword sample_sets sample_entropy (default_options\<lparr>length_opt := 0\<rparr>) = Inr []"
  by (simp add: generatePassword_def getRandomNumbers_def assemble_chars_def
      sample_sets_def default_options_def)

text \<open>
  Claim C9, amended. With a non-positive length, \<open>generatePassword\<close> throws the
  configuration error exactly when the assembled alphabet is empty; with a non-empty
  alphabet, length 0 returns the empty string, and a negative length fails with the
  \<^verbatim>\<open>RangeError\<close> of the typed-array allocation, returning no password.
\<close>

theorem generatePassword_nonpositive_length:
  assumes "length_opt options \<le> 0"
  shows "generatePassword cs rnd options =
     (if assemble_chars cs options = []
      then Inl (Error ''At least one character set must be selected'')
      else if length_opt options = 0 then Inr [] else Inl RangeError)"
  using assms by (simp add: generatePassword_def getRandomNumbers_def Let_def)

theorem generatePassword_nonpositive_length_witness:
  "length_opt (default_options\<lparr>length_opt := - 3\<rparr>) \<le> 0
   \<and> generatePassword sample_sets sample_entropy (default_options\<lparr>length_opt := - 3\<rparr>)
       = Inl RangeError"
  using generatePassword_nonpositive_length
          [of "default_options\<lparr>length_opt := - 3\<rparr>" sample_sets sample_entropy]
  by (simp add: assemble_chars_def sample_sets_def default_options_def)

subsection \<open>Word-based generation\<close>

text \<open>
  Claim C3 says that \<open>generateWordBasedPassword\<close> returns \<open>wordCount\<close> capitalised
  words of the configured language's list. The code looks the list up under
  \<^verbatim>\<open>options.language\<close>, a property the options do not have, so with the default
  options (four words, English) the first draw reads \<^verbatim>\<open>length\<close> of \<^verbatim>\<open>undefined\<close>
  and the call throws a \<^verbatim>\<open>TypeError\<close> instead of returning a passphrase.
\<close>

theorem generateWordBasedPassword_default_throws:
  "generateWordBasedPassword rnd default_options = Inl TypeError"
  by (simp add: generateWordBasedPassword_def language_def draw_words_undefined
      default_options_def)

end
